theory Spec2Isabelle
  imports Main "HOL-Library.Multiset" "HOL-Library.Product_Lexorder"
begin

section \<open>JavaScript helpers\<close>

text \<open>
  \<^verbatim>\<open>String(n)\<close> for a non-negative integer: its decimal digits.
\<close>

function String_nat :: "nat \<Rightarrow> string" where
  "String_nat n =
     (if n < 10 then [''0123456789'' ! n]
      else String_nat (n div 10) @ [''0123456789'' ! (n mod 10)])"
  by pat_completeness auto
termination
  by (relation "measure id") auto

declare String_nat.simps [simp del]

text \<open>
  \<^verbatim>\<open>s.padStart(n, c)\<close> with a one-character pad: a string already \<open>n\<close> long or
  longer is returned as it is.
\<close>

definition padStart :: "nat \<Rightarrow> char \<Rightarrow> string \<Rightarrow> string" where
  "padStart n c s = replicate (n - length s) c @ s"

text \<open>\<^verbatim>\<open>Array.prototype.find\<close> is \<^const>\<open>List.find\<close>; \<^verbatim>\<open>findIndex\<close> returns
  \<open>-1\<close> when nothing matches, modelled as \<open>None\<close>.\<close>

fun findIndex :: "('a \<Rightarrow> bool) \<Rightarrow> 'a list \<Rightarrow> nat option" where
  "findIndex P [] = None"
| "findIndex P (x # xs) =
     (if P x then Some 0 else map_option Suc (findIndex P xs))"

section \<open>The data model (\<^verbatim>\<open>lib/types.ts\<close>)\<close>

datatype KanbanStage = New | Contacted | Qualified | Application | Enrolled | Dropped

datatype ActivityType = Call | Email | SMS | WhatsApp | Walk_in | System

datatype TaskType = Follow_up | Meeting | Documentation

datatype TaskStatus = Pending | Completed | Overdue

datatype Priority = High | Medium | Low

datatype AcademicStatus = Passed | Pursuing

datatype Gender = Male | Female | Other

datatype Relation = Father | Mother | Guardian | OtherRelation

datatype DocumentType = Marksheet10 | Marksheet12 | PhotoID | ApplicationForm

record Activity =
  activity_id :: string
  activity_type :: ActivityType
  timestamp :: string
  outcome :: string
  activity_notes :: string
  userId :: string

record Task =
  task_id :: string
  task_leadId :: string
  task_type :: TaskType
  dueDate :: string
  task_status :: TaskStatus
  priority :: Priority
  task_notes :: string
  task_assignedUserId :: string

record Document =
  document_id :: string
  document_type :: DocumentType
  uploadDate :: string
  url :: string
  verified :: bool

record LeadContact =
  contact_id :: string
  contact_name :: string
  relation :: Relation
  contact_phone :: "string option"
  contact_email :: "string option"

record LeadPhoneNumber =
  phone_title :: string
  phone_number :: string

text \<open>
  The type \<^verbatim>\<open>Lead\<close>. Fields declared with \<^verbatim>\<open>?\<close> are options. \<^verbatim>\<open>phoneNumbers\<close> is
  declared as a plain array, but \<^verbatim>\<open>addLeadAction\<close> hands \<^verbatim>\<open>undefined\<close> to the store when
  no phone number was submitted, so the field is an option here as well.
\<close>

record Lead =
  lead_id :: string
  name :: string
  avatarUrl :: string
  email :: string
  stage :: KanbanStage
  source :: string
  assignedUserId :: string
  createdAt :: string
  phoneNumbers :: "LeadPhoneNumber list option"
  education :: "string option"
  college :: "string option"
  status :: "AcademicStatus option"
  courseInterest :: "string option"
  address :: "string option"
  city :: "string option"
  gender :: "Gender option"
  dob :: "string option"
  activities :: "Activity list"
  tasks :: "Task list"
  documents :: "Document list"
  contacts :: "LeadContact list"

text \<open>The argument of \<^verbatim>\<open>addLead\<close>: a \<^verbatim>\<open>Lead\<close> without its generated fields.\<close>

record LeadInput =
  in_name :: string
  in_email :: string
  in_source :: string
  in_phoneNumbers :: "LeadPhoneNumber list option"
  in_education :: "string option"
  in_college :: "string option"
  in_status :: "AcademicStatus option"
  in_courseInterest :: "string option"
  in_address :: "string option"
  in_city :: "string option"
  in_gender :: "Gender option"
  in_dob :: "string option"

text \<open>
  \<^verbatim>\<open>Partial<Lead> & { id: string }\<close>: every key but \<^verbatim>\<open>id\<close> may be missing (\<open>None\<close>).
  A key of an optional field can also be present with the value \<^verbatim>\<open>undefined\<close>
  (\<open>Some None\<close>); the object spread copies such a key.
\<close>

record LeadPartial =
  p_id :: string
  p_name :: "string option"
  p_avatarUrl :: "string option"
  p_email :: "string option"
  p_stage :: "KanbanStage option"
  p_source :: "string option"
  p_assignedUserId :: "string option"
  p_createdAt :: "string option"
  p_phoneNumbers :: "LeadPhoneNumber list option option"
  p_education :: "string option option"
  p_college :: "string option option"
  p_status :: "AcademicStatus option option"
  p_courseInterest :: "string option option"
  p_address :: "string option option"
  p_city :: "string option option"
  p_gender :: "Gender option option"
  p_dob :: "string option option"
  p_activities :: "Activity list option"
  p_tasks :: "Task list option"
  p_documents :: "Document list option"
  p_contacts :: "LeadContact list option"

record ImagePlaceholder =
  image_id :: string
  description :: string
  imageUrl :: string
  imageHint :: string

section \<open>The in-memory store (\<^verbatim>\<open>lib/data.ts\<close>)\<close>

text \<open>
  The module-level variables the store functions mutate: the array \<^verbatim>\<open>leads\<close> and the
  array \<^verbatim>\<open>PlaceHolderImages\<close>. Every function takes the store and returns the new one.
\<close>

record store =
  leads :: "Lead list"
  PlaceHolderImages :: "ImagePlaceholder list"

definition avatarImage :: "string \<Rightarrow> ImagePlaceholder" where
  "avatarImage avatarId =
     \<lparr> image_id = avatarId,
       description = ''User avatar '' @ avatarId,
       imageUrl = ''https://picsum.photos/seed/'' @ avatarId @ ''/40/40'',
       imageHint = ''person avatar'' \<rparr>"

text \<open>
  \<^verbatim>\<open>generateLeads\<close> draws the attributes of each lead with \<^verbatim>\<open>Math.random()\<close>. The
  random draws are the parameter \<open>rnd\<close>: \<open>rnd i\<close> is the lead drawn in iteration \<open>i\<close>.
  The argument \<^verbatim>\<open>count\<close> is \<open>cnt\<close> here.
  What does not depend on chance is fixed here: the id \<^verbatim>\<open>String(i).padStart(3, '0')\<close> and
  the avatar \<^verbatim>\<open>String(i)\<close>.
\<close>

definition generatedLead :: "(nat \<Rightarrow> Lead) \<Rightarrow> nat \<Rightarrow> Lead" where
  "generatedLead rnd i =
     (rnd i)\<lparr> lead_id := padStart 3 CHR ''0'' (String_nat i), avatarUrl := String_nat i \<rparr>"

definition generateLeads :: "(nat \<Rightarrow> Lead) \<Rightarrow> nat \<Rightarrow> store \<Rightarrow> Lead list \<times> store" where
  "generateLeads rnd cnt st =
     (if length (leads st) > 0 \<and> length (leads st) = cnt then (leads st, st)
      else
        let newLeads = map (generatedLead rnd) [1..<Suc cnt];
            existingIds = map image_id (PlaceHolderImages st);
            added = map (\<lambda>i. avatarImage (String_nat i))
                      (filter (\<lambda>i. String_nat i \<notin> set existingIds) [1..<Suc cnt])
        in (newLeads,
            st\<lparr> leads := newLeads,
                PlaceHolderImages := PlaceHolderImages st @ added \<rparr>))"

definition getLeads :: "(nat \<Rightarrow> Lead) \<Rightarrow> store \<Rightarrow> Lead list \<times> store" where
  "getLeads rnd st =
     (if length (leads st) = 0 then generateLeads rnd 100 st else (leads st, st))"

text \<open>
  \<^verbatim>\<open>addLead\<close>. The two calls of \<^verbatim>\<open>new Date().toISOString()\<close> are the parameters
  \<open>now_activity\<close> and \<open>now_created\<close>. The spread \<^verbatim>\<open>...lead\<close> comes after \<^verbatim>\<open>id\<close> and before
  the other generated fields; the input type has none of these keys.
\<close>

definition addLead ::
  "(nat \<Rightarrow> Lead) \<Rightarrow> string \<Rightarrow> string \<Rightarrow> LeadInput \<Rightarrow> store \<Rightarrow> Lead \<times> store" where
  "addLead rnd now_activity now_created lead st =
     (let (currentLeads, st1) = getLeads rnd st;
          newId = padStart 3 CHR ''0'' (String_nat (length currentLeads + 1));
          avatarId = String_nat (length currentLeads + 1);
          creationActivity =
            \<lparr> activity_id = ''ACT-'' @ newId @ ''-0'',
              activity_type = System,
              timestamp = now_activity,
              outcome = ''Lead Created'',
              activity_notes = ''Lead was created in the system via '' @ in_source lead @ ''.'',
              userId = ''user-1'' \<rparr>;
          newLead =
            \<lparr> lead_id = newId,
              name = in_name lead,
              avatarUrl = avatarId,
              email = in_email lead,
              stage = New,
              source = in_source lead,
              assignedUserId = ''user-1'',
              createdAt = now_created,
              phoneNumbers = in_phoneNumbers lead,
              education = in_education lead,
              college = in_college lead,
              status = in_status lead,
              courseInterest = in_courseInterest lead,
              address = in_address lead,
              city = in_city lead,
              gender = in_gender lead,
              dob = in_dob lead,
              activities = [creationActivity],
              tasks = [],
              documents = [],
              contacts = [] \<rparr>
      in (newLead,
          st1\<lparr> leads := newLead # leads st1,
               PlaceHolderImages := PlaceHolderImages st1 @ [avatarImage avatarId] \<rparr>))"

text \<open>The spread \<^verbatim>\<open>{ ...originalLead, ...updatedLead }\<close>: every key present in the
  partial overwrites the original's.\<close>

definition spread :: "'a \<Rightarrow> 'a option \<Rightarrow> 'a" where
  "spread old new = (case new of None \<Rightarrow> old | Some v \<Rightarrow> v)"

definition mergeLead :: "Lead \<Rightarrow> LeadPartial \<Rightarrow> Lead" where
  "mergeLead originalLead updatedLead =
     \<lparr> lead_id = p_id updatedLead,
       name = spread (name originalLead) (p_name updatedLead),
       avatarUrl = spread (avatarUrl originalLead) (p_avatarUrl updatedLead),
       email = spread (email originalLead) (p_email updatedLead),
       stage = spread (stage originalLead) (p_stage updatedLead),
       source = spread (source originalLead) (p_source updatedLead),
       assignedUserId = spread (assignedUserId originalLead) (p_assignedUserId updatedLead),
       createdAt = spread (createdAt originalLead) (p_createdAt updatedLead),
       phoneNumbers = spread (phoneNumbers originalLead) (p_phoneNumbers updatedLead),
       education = spread (education originalLead) (p_education updatedLead),
       college = spread (college originalLead) (p_college updatedLead),
       status = spread (status originalLead) (p_status updatedLead),
       courseInterest = spread (courseInterest originalLead) (p_courseInterest updatedLead),
       address = spread (address originalLead) (p_address updatedLead),
       city = spread (city originalLead) (p_city updatedLead),
       gender = spread (gender originalLead) (p_gender updatedLead),
       dob = spread (dob originalLead) (p_dob updatedLead),
       activities = spread (activities originalLead) (p_activities updatedLead),
       tasks = spread (tasks originalLead) (p_tasks updatedLead),
       documents = spread (documents originalLead) (p_documents updatedLead),
       contacts = spread (contacts originalLead) (p_contacts updatedLead) \<rparr>"

text \<open>
  \<^verbatim>\<open>updateLead\<close>: \<^verbatim>\<open>null\<close> (here \<open>None\<close>) when no lead has the id, otherwise the merged
  lead, written back at the index found. The function has no \<^verbatim>\<open>throw\<close>.
\<close>

definition updateLead :: "(nat \<Rightarrow> Lead) \<Rightarrow> LeadPartial \<Rightarrow> store \<Rightarrow> Lead option \<times> store" where
  "updateLead rnd updatedLead st =
     (let (currentLeads, st1) = getLeads rnd st
      in case findIndex (\<lambda>lead. lead_id lead = p_id updatedLead) currentLeads of
           None \<Rightarrow> (None, st1)
         | Some leadIndex \<Rightarrow>
             let originalLead = leads st1 ! leadIndex;
                 merged = mergeLead originalLead updatedLead
             in (Some merged, st1\<lparr> leads := (leads st1)[leadIndex := merged] \<rparr>))"

text \<open>\<^verbatim>\<open>bulkDeleteLeads\<close> filters the array \<^verbatim>\<open>leads\<close> itself, without \<^verbatim>\<open>getLeads()\<close>.\<close>

definition bulkDeleteLeads :: "string list \<Rightarrow> store \<Rightarrow> store" where
  "bulkDeleteLeads leadIds st =
     st\<lparr> leads := filter (\<lambda>lead. lead_id lead \<notin> set leadIds) (leads st) \<rparr>"

text \<open>
  The lookup of a lead by id, as \<^verbatim>\<open>addActivity\<close> and \<^verbatim>\<open>addTask\<close> perform it:
  \<^verbatim>\<open>getLeads().find(l => l.id === leadId)\<close>. Like every read of the store it goes
  through \<^verbatim>\<open>getLeads()\<close>.
\<close>

definition findLead :: "(nat \<Rightarrow> Lead) \<Rightarrow> string \<Rightarrow> store \<Rightarrow> Lead option \<times> store" where
  "findLead rnd leadId st =
     (let (currentLeads, st1) = getLeads rnd st
      in (find (\<lambda>l. lead_id l = leadId) currentLeads, st1))"

text \<open>
  \<^verbatim>\<open>bulkUpdateLeads\<close>. With a distribution list, \<^verbatim>\<open>new Map(pairs)\<close> keeps the last
  pair of a repeated lead id; every lead whose id is a key gets the mapped assignee.
  Otherwise \<^verbatim>\<open>singleUpdate\<close> collects the truthy \<^verbatim>\<open>stage\<close> and \<^verbatim>\<open>assignedUserId\<close>
  (an empty string is falsy) and is assigned onto every lead whose id is in
  \<^verbatim>\<open>leadIds\<close>. Both iterations run over the array \<^verbatim>\<open>leads\<close> itself, without \<^verbatim>\<open>getLeads()\<close>.
\<close>

record BulkUpdates =
  u_stage :: "KanbanStage option"
  u_assignedUserId :: "string option"
  u_assignedUserIds :: "(string \<times> string) list option"

definition new_Map :: "('k \<times> 'v) list \<Rightarrow> ('k \<rightharpoonup> 'v)" where
  "new_Map pairs = map_of (rev pairs)"

definition truthy :: "string option \<Rightarrow> string option" where
  "truthy v = (case v of Some s \<Rightarrow> if s = [] then None else Some s | None \<Rightarrow> None)"

definition assignSingle :: "KanbanStage option \<Rightarrow> string option \<Rightarrow> Lead \<Rightarrow> Lead" where
  "assignSingle s u lead =
     lead\<lparr> stage := spread (stage lead) s, assignedUserId := spread (assignedUserId lead) u \<rparr>"

text \<open>The body of the first loop: a lead whose id is a key of the map gets the mapped
  assignee.\<close>

definition assignFrom :: "(string \<rightharpoonup> string) \<Rightarrow> Lead \<Rightarrow> Lead" where
  "assignFrom assignmentMap lead =
     (case assignmentMap (lead_id lead) of
        Some u \<Rightarrow> lead\<lparr> assignedUserId := u \<rparr>
      | None \<Rightarrow> lead)"

definition bulkUpdateLeads :: "string list \<Rightarrow> BulkUpdates \<Rightarrow> store \<Rightarrow> store" where
  "bulkUpdateLeads leadIds updates st =
     (case u_assignedUserIds updates of
        Some pairs \<Rightarrow>
          let assignmentMap = new_Map pairs
          in st\<lparr> leads := map (assignFrom assignmentMap) (leads st) \<rparr>
      | None \<Rightarrow>
          let s = u_stage updates; u = truthy (u_assignedUserId updates)
          in if s \<noteq> None \<or> u \<noteq> None
             then st\<lparr> leads :=
                      map (\<lambda>lead. if lead_id lead \<in> set leadIds then assignSingle s u lead
                                   else lead)
                          (leads st) \<rparr>
             else st)"

section \<open>Form data and schemas (\<^verbatim>\<open>app/actions.ts\<close>)\<close>

text \<open>
  A \<^verbatim>\<open>FormData\<close> is its list of entries in insertion order (string values only).
  \<^verbatim>\<open>get\<close> returns the first value of a key, or \<^verbatim>\<open>null\<close> when the key is missing;
  \<^verbatim>\<open>getAll\<close> returns every value of the key.
\<close>

type_synonym FormData = "(string \<times> string) list"

datatype jsv = Undefined | Null | Str string

definition formData_get :: "FormData \<Rightarrow> string \<Rightarrow> jsv" where
  "formData_get fd k = (case map_of fd k of None \<Rightarrow> Null | Some v \<Rightarrow> Str v)"

definition formData_getAll :: "FormData \<Rightarrow> string \<Rightarrow> string list" where
  "formData_getAll fd k = map snd (filter (\<lambda>kv. fst kv = k) fd)"

text \<open>\<^verbatim>\<open>v || undefined\<close>: \<^verbatim>\<open>null\<close> and the empty string become \<^verbatim>\<open>undefined\<close>.\<close>

definition or_undefined :: "jsv \<Rightarrow> jsv" where
  "or_undefined v = (case v of Str s \<Rightarrow> if s = [] then Undefined else Str s | _ \<Rightarrow> Undefined)"

definition falsy :: "jsv \<Rightarrow> bool" where
  "falsy v = (case v of Str s \<Rightarrow> s = [] | _ \<Rightarrow> True)"

text \<open>
  The schema library (zod) is not part of the repository. What the actions rely on:
  \<^item> a parse has a status: \<open>valid\<close>, \<open>dirty\<close> (a check failed, parsing went on) or
    \<open>aborted\<close> (the value has the wrong type), and a list of issues; \<^verbatim>\<open>safeParse\<close>
    succeeds exactly when the status is \<open>valid\<close>;
  \<^item> \<^verbatim>\<open>z.string()\<close> aborts on anything that is not a string, \<^verbatim>\<open>null\<close> included; its
    checks (\<^verbatim>\<open>min\<close>, \<^verbatim>\<open>email\<close>) and \<^verbatim>\<open>refine\<close> make the parse dirty;
  \<^item> \<^verbatim>\<open>.optional()\<close> accepts \<^verbatim>\<open>undefined\<close> and hands every other value, \<^verbatim>\<open>null\<close>
    included, to the inner schema;
  \<^item> \<^verbatim>\<open>z.enum\<close> aborts on a value that is not one of its strings;
  \<^item> an object parses all its keys, collects their issues, and is aborted when one of
    them is; a key present in the input is kept in the output even when its value is
    \<^verbatim>\<open>undefined\<close>;
  \<^item> \<^verbatim>\<open>.refine\<close> on an object is skipped when the object is aborted, and otherwise
    adds its issue (with its \<^verbatim>\<open>path\<close>) when the predicate is false;
  \<^item> \<^verbatim>\<open>flatten().fieldErrors\<close> files each issue under the first element of its path.
  An issue is kept as the pair of that first path element and the message. The e-mail
  pattern of the library is the parameter \<open>isEmail\<close>.
\<close>

datatype ParseStatus = valid | dirty | aborted

type_synonym issue = "string \<times> string"

type_synonym parse = "ParseStatus \<times> issue list"

definition received :: "jsv \<Rightarrow> string" where
  "received v = (case v of Undefined \<Rightarrow> ''undefined'' | Null \<Rightarrow> ''null'' | Str _ \<Rightarrow> ''string'')"

definition invalid_type :: "string \<Rightarrow> string \<Rightarrow> jsv \<Rightarrow> parse" where
  "invalid_type key expected v =
     (aborted, [(key, if v = Undefined then ''Required''
                      else ''Expected '' @ expected @ '', received '' @ received v)])"

definition z_string :: "string \<Rightarrow> (string \<Rightarrow> bool) \<Rightarrow> string \<Rightarrow> jsv \<Rightarrow> parse" where
  "z_string key check msg v =
     (case v of
        Str s \<Rightarrow> if check s then (valid, []) else (dirty, [(key, msg)])
      | _ \<Rightarrow> invalid_type key ''string'' v)"

definition z_optional :: "(jsv \<Rightarrow> parse) \<Rightarrow> jsv \<Rightarrow> parse" where
  "z_optional inner v = (if v = Undefined then (valid, []) else inner v)"

fun joinValues :: "string list \<Rightarrow> string" where
  "joinValues [] = []"
| "joinValues [x] = [CHR 0x27] @ x @ [CHR 0x27]"
| "joinValues (x # xs) = [CHR 0x27] @ x @ [CHR 0x27] @ '' | '' @ joinValues xs"

definition z_enum :: "string \<Rightarrow> string list \<Rightarrow> jsv \<Rightarrow> parse" where
  "z_enum key values v =
     (case v of
        Str s \<Rightarrow>
          if s \<in> set values then (valid, [])
          else (aborted, [(key, ''Invalid enum value. Expected '' @ joinValues values
                                  @ '', received '' @ [CHR 0x27] @ s @ [CHR 0x27])])
      | _ \<Rightarrow> invalid_type key (joinValues values) v)"

definition merge_status :: "ParseStatus \<Rightarrow> ParseStatus \<Rightarrow> ParseStatus" where
  "merge_status a b =
     (if a = aborted \<or> b = aborted then aborted
      else if a = dirty \<or> b = dirty then dirty else valid)"

definition z_object :: "parse list \<Rightarrow> parse" where
  "z_object ps = (foldr merge_status (map fst ps) valid, concat (map snd ps))"

definition refine :: "bool \<Rightarrow> issue \<Rightarrow> parse \<Rightarrow> parse" where
  "refine ok iss inner =
     (if fst inner = aborted then inner
      else if ok then inner
      else (dirty, snd inner @ [iss]))"

text \<open>\<^verbatim>\<open>/^\+?[1-9]\d{9,14}$/\<close>: an optional plus sign, a digit from 1 to 9, then nine to
  fourteen digits, and nothing else.\<close>

definition phoneRegex_test :: "string \<Rightarrow> bool" where
  "phoneRegex_test val =
     (let rest = (case val of c # r \<Rightarrow> if c = CHR ''+'' then r else val | [] \<Rightarrow> val)
      in case rest of
           [] \<Rightarrow> False
         | c # ds \<Rightarrow> c \<in> set ''123456789'' \<and> 9 \<le> length ds \<and> length ds \<le> 14
                     \<and> list_all (\<lambda>d. d \<in> set ''0123456789'') ds)"

definition phone_issues :: "LeadPhoneNumber \<Rightarrow> issue list" where
  "phone_issues p =
     (if length (phone_title p) < 1 then [(''phoneNumbers'', ''Title is required'')] else [])
     @ (if phoneRegex_test (phone_number p) then []
        else [(''phoneNumbers'', ''Please enter a valid phone number.'')])"

definition z_phoneNumbers :: "LeadPhoneNumber list option \<Rightarrow> parse" where
  "z_phoneNumbers v =
     (case v of
        None \<Rightarrow> (valid, [])
      | Some ps \<Rightarrow>
          let is = concat (map phone_issues ps)
          in (if is = [] then valid else dirty, is))"

text \<open>
  Both lead actions rebuild the phone numbers from the parallel entries \<^verbatim>\<open>phoneTitles\<close>
  and \<^verbatim>\<open>phoneNumbers\<close>: a title without a number at its index, or with an empty one, is
  filtered out, and an empty result is replaced by \<^verbatim>\<open>undefined\<close>.
\<close>

definition collectPhoneNumbers :: "FormData \<Rightarrow> LeadPhoneNumber list option" where
  "collectPhoneNumbers formData =
     (let phoneTitles = formData_getAll formData ''phoneTitles'';
          phoneNumbersData = formData_getAll formData ''phoneNumbers'';
          phoneNumbers =
            filter (\<lambda>p. phone_number p \<noteq> [])
              (map (\<lambda>(t, n). \<lparr> phone_title = t, phone_number = n \<rparr>)
                   (zip phoneTitles phoneNumbersData))
      in if length phoneNumbers > 0 then Some phoneNumbers else None)"

text \<open>Reading a validated value back. After a successful parse a required string is a
  \<open>Str\<close>; the other cases of \<open>str\<close> are never reached on validated data.\<close>

definition str :: "jsv \<Rightarrow> string" where
  "str v = (case v of Str s \<Rightarrow> s | _ \<Rightarrow> [])"

definition opt :: "jsv \<Rightarrow> string option" where
  "opt v = (case v of Str s \<Rightarrow> Some s | _ \<Rightarrow> None)"

definition AcademicStatus_of :: "jsv \<Rightarrow> AcademicStatus option" where
  "AcademicStatus_of v =
     (if v = Str ''Passed'' then Some Passed
      else if v = Str ''Pursuing'' then Some Pursuing else None)"

definition Gender_of :: "jsv \<Rightarrow> Gender option" where
  "Gender_of v =
     (if v = Str ''Male'' then Some Male
      else if v = Str ''Female'' then Some Female
      else if v = Str ''Other'' then Some Other else None)"

definition KANBAN_STAGES :: "KanbanStage list" where
  "KANBAN_STAGES = [New, Contacted, Qualified, Application, Enrolled, Dropped]"

fun stage_name :: "KanbanStage \<Rightarrow> string" where
  "stage_name New = ''New''"
| "stage_name Contacted = ''Contacted''"
| "stage_name Qualified = ''Qualified''"
| "stage_name Application = ''Application''"
| "stage_name Enrolled = ''Enrolled''"
| "stage_name Dropped = ''Dropped''"

definition KanbanStage_of :: "jsv \<Rightarrow> KanbanStage option" where
  "KanbanStage_of v = find (\<lambda>s. v = Str (stage_name s)) KANBAN_STAGES"

subsection \<open>The calls into the store\<close>

text \<open>
  The actions call the store inside \<^verbatim>\<open>try\<close> blocks. A call completes by returning or
  by throwing; the three store functions called here contain no \<^verbatim>\<open>throw\<close>, so each
  call returns.
\<close>

datatype 'a completion = Returns 'a | Throws string

definition addLeadToStore ::
  "(nat \<Rightarrow> Lead) \<Rightarrow> string \<Rightarrow> string \<Rightarrow> LeadInput \<Rightarrow> store \<Rightarrow> Lead completion \<times> store" where
  "addLeadToStore rnd now_activity now_created lead st =
     (let (r, st') = addLead rnd now_activity now_created lead st in (Returns r, st'))"

definition updateLeadInStore ::
  "(nat \<Rightarrow> Lead) \<Rightarrow> LeadPartial \<Rightarrow> store \<Rightarrow> Lead option completion \<times> store" where
  "updateLeadInStore rnd updatedLead st =
     (let (r, st') = updateLead rnd updatedLead st in (Returns r, st'))"

definition bulkUpdateLeadsInStore ::
  "string list \<Rightarrow> BulkUpdates \<Rightarrow> store \<Rightarrow> unit completion \<times> store" where
  "bulkUpdateLeadsInStore leadIds updates st = (Returns (), bulkUpdateLeads leadIds updates st)"

subsection \<open>\<^verbatim>\<open>addLeadAction\<close>\<close>

record AddLeadRaw =
  r_name :: jsv
  r_email :: jsv
  r_phoneNumbers :: "LeadPhoneNumber list option"
  r_source :: jsv
  r_socialMediaSource :: jsv
  r_otherSource :: jsv
  r_referralSource :: jsv
  r_education :: jsv
  r_college :: jsv
  r_status :: jsv
  r_courseInterest :: jsv
  r_address :: jsv
  r_city :: jsv
  r_gender :: jsv
  r_dob :: jsv

text \<open>The \<^verbatim>\<open>z.object({...})\<close> of \<^verbatim>\<open>addLeadFormSchema\<close>, its keys in the order of the
  source, and the schema itself: the object under its three refinements.\<close>

definition addLeadObject :: "(string \<Rightarrow> bool) \<Rightarrow> AddLeadRaw \<Rightarrow> parse" where
  "addLeadObject isEmail data =
     z_object
       [ z_string ''name'' (\<lambda>s. 2 \<le> length s) ''Name must be at least 2 characters.''
           (r_name data),
         z_string ''email'' isEmail ''Please enter a valid email address.'' (r_email data),
         z_phoneNumbers (r_phoneNumbers data),
         z_string ''source'' (\<lambda>s. 1 \<le> length s) ''Source is required.'' (r_source data),
         z_optional (z_string ''socialMediaSource'' (\<lambda>_. True) []) (r_socialMediaSource data),
         z_optional (z_string ''otherSource'' (\<lambda>_. True) []) (r_otherSource data),
         z_optional (z_string ''referralSource'' (\<lambda>_. True) []) (r_referralSource data),
         z_optional (z_string ''education'' (\<lambda>_. True) []) (r_education data),
         z_optional (z_string ''college'' (\<lambda>_. True) []) (r_college data),
         z_optional (z_enum ''status'' [''Passed'', ''Pursuing'']) (r_status data),
         z_optional (z_string ''courseInterest'' (\<lambda>_. True) []) (r_courseInterest data),
         z_optional (z_string ''address'' (\<lambda>_. True) []) (r_address data),
         z_optional (z_string ''city'' (\<lambda>_. True) []) (r_city data),
         z_optional (z_enum ''gender'' [''Male'', ''Female'', ''Other'']) (r_gender data),
         z_optional (z_string ''dob'' (\<lambda>_. True) []) (r_dob data) ]"

definition addLeadFormSchema :: "(string \<Rightarrow> bool) \<Rightarrow> AddLeadRaw \<Rightarrow> parse" where
  "addLeadFormSchema isEmail data =
     refine (\<not> (r_source data = Str ''Referral'' \<and> falsy (r_referralSource data)))
            (''referralSource'', ''Please specify the referrer name.'')
       (refine (\<not> (r_source data = Str ''Social Media'' \<and> falsy (r_socialMediaSource data)))
               (''socialMediaSource'', ''Please specify the social media channel.'')
          (refine (\<not> (r_source data = Str ''Other'' \<and> falsy (r_otherSource data)))
                  (''otherSource'',
                   ''Please specify the source if '' @ [CHR 0x27] @ ''Other'' @ [CHR 0x27]
                     @ '' is selected.'')
             (addLeadObject isEmail data)))"

text \<open>The state an action on one lead returns: \<^verbatim>\<open>{ message }\<close> or \<^verbatim>\<open>{ errors }\<close>.\<close>

datatype LeadActionState = Message string | FieldErrors "issue list"

definition addLeadAction ::
  "(nat \<Rightarrow> Lead) \<Rightarrow> (string \<Rightarrow> bool) \<Rightarrow> string \<Rightarrow> string \<Rightarrow> FormData \<Rightarrow> store
     \<Rightarrow> LeadActionState \<times> store" where
  "addLeadAction rnd isEmail now_activity now_created formData st =
     (let rawData =
            \<lparr> r_name = formData_get formData ''name'',
              r_email = formData_get formData ''email'',
              r_phoneNumbers = collectPhoneNumbers formData,
              r_source = formData_get formData ''source'',
              r_socialMediaSource = formData_get formData ''socialMediaSource'',
              r_otherSource = formData_get formData ''otherSource'',
              r_referralSource = formData_get formData ''referralSource'',
              r_education = formData_get formData ''education'',
              r_college = formData_get formData ''college'',
              r_status = formData_get formData ''status'',
              r_courseInterest = formData_get formData ''courseInterest'',
              r_address = formData_get formData ''address'',
              r_city = formData_get formData ''city'',
              r_gender = formData_get formData ''gender'',
              r_dob = formData_get formData ''dob'' \<rparr>;
          validatedFields = addLeadFormSchema isEmail rawData
      in if fst validatedFields \<noteq> valid then (FieldErrors (snd validatedFields), st)
         else
           let src = str (r_source rawData);
               finalSource =
                 (if src = ''Other'' then str (r_otherSource rawData)
                  else if src = ''Social Media''
                    then src @ '' - '' @ str (r_socialMediaSource rawData)
                  else if src = ''Referral''
                    then src @ '' - '' @ str (r_referralSource rawData)
                  else src)
           in case addLeadToStore rnd now_activity now_created
                     \<lparr> in_name = str (r_name rawData),
                       in_email = str (r_email rawData),
                       in_source = finalSource,
                       in_phoneNumbers = r_phoneNumbers rawData,
                       in_education = opt (r_education rawData),
                       in_college = opt (r_college rawData),
                       in_status = AcademicStatus_of (r_status rawData),
                       in_courseInterest = opt (r_courseInterest rawData),
                       in_address = opt (r_address rawData),
                       in_city = opt (r_city rawData),
                       in_gender = Gender_of (r_gender rawData),
                       in_dob = opt (r_dob rawData) \<rparr> st of
                (Returns newLead, st') \<Rightarrow>
                  (Message (''Lead '' @ [CHR 0x22] @ str (r_name rawData) @ [CHR 0x22]
                              @ '' created successfully.''), st')
              | (Throws e, st') \<Rightarrow> (FieldErrors [(''name'', ''Failed to create lead.'')], st'))"

subsection \<open>\<^verbatim>\<open>updateLeadAction\<close>\<close>

record UpdateLeadRaw =
  ur_id :: jsv
  ur_name :: jsv
  ur_email :: jsv
  ur_assignedUserId :: jsv
  ur_phoneNumbers :: "LeadPhoneNumber list option"
  ur_source :: jsv
  ur_courseInterest :: jsv
  ur_education :: jsv
  ur_college :: jsv
  ur_status :: jsv

definition updateLeadFormSchema :: "(string \<Rightarrow> bool) \<Rightarrow> UpdateLeadRaw \<Rightarrow> parse" where
  "updateLeadFormSchema isEmail data =
     z_object
       [ z_string ''id'' (\<lambda>_. True) [] (ur_id data),
         z_string ''name'' (\<lambda>s. 2 \<le> length s) ''Name must be at least 2 characters.''
           (ur_name data),
         z_string ''email'' isEmail ''Please enter a valid email address.'' (ur_email data),
         z_string ''assignedUserId'' (\<lambda>_. True) [] (ur_assignedUserId data),
         z_phoneNumbers (ur_phoneNumbers data),
         z_string ''source'' (\<lambda>s. 1 \<le> length s) ''Source is required.'' (ur_source data),
         z_optional (z_string ''courseInterest'' (\<lambda>_. True) []) (ur_courseInterest data),
         z_optional (z_string ''education'' (\<lambda>_. True) []) (ur_education data),
         z_optional (z_string ''college'' (\<lambda>_. True) []) (ur_college data),
         z_optional (z_enum ''status'' [''Passed'', ''Pursuing'']) (ur_status data) ]"

text \<open>
  The validated data is handed to \<^verbatim>\<open>updateLead\<close> as it is. Its ten keys are all present
  (the raw object names each of them), the optional ones possibly with the value
  \<^verbatim>\<open>undefined\<close>.
\<close>

definition updateLeadAction ::
  "(nat \<Rightarrow> Lead) \<Rightarrow> (string \<Rightarrow> bool) \<Rightarrow> FormData \<Rightarrow> store \<Rightarrow> LeadActionState \<times> store" where
  "updateLeadAction rnd isEmail formData st =
     (let rawData =
            \<lparr> ur_id = formData_get formData ''id'',
              ur_name = formData_get formData ''name'',
              ur_email = formData_get formData ''email'',
              ur_assignedUserId = formData_get formData ''assignedUserId'',
              ur_phoneNumbers = collectPhoneNumbers formData,
              ur_source = formData_get formData ''source'',
              ur_courseInterest = or_undefined (formData_get formData ''courseInterest''),
              ur_education = or_undefined (formData_get formData ''education''),
              ur_college = or_undefined (formData_get formData ''college''),
              ur_status = or_undefined (formData_get formData ''status'') \<rparr>;
          validatedFields = updateLeadFormSchema isEmail rawData
      in if fst validatedFields \<noteq> valid then (FieldErrors (snd validatedFields), st)
         else
           case updateLeadInStore rnd
                  \<lparr> p_id = str (ur_id rawData),
                    p_name = Some (str (ur_name rawData)),
                    p_avatarUrl = None,
                    p_email = Some (str (ur_email rawData)),
                    p_stage = None,
                    p_source = Some (str (ur_source rawData)),
                    p_assignedUserId = Some (str (ur_assignedUserId rawData)),
                    p_createdAt = None,
                    p_phoneNumbers = Some (ur_phoneNumbers rawData),
                    p_education = Some (opt (ur_education rawData)),
                    p_college = Some (opt (ur_college rawData)),
                    p_status = Some (AcademicStatus_of (ur_status rawData)),
                    p_courseInterest = Some (opt (ur_courseInterest rawData)),
                    p_address = None,
                    p_city = None,
                    p_gender = None,
                    p_dob = None,
                    p_activities = None,
                    p_tasks = None,
                    p_documents = None,
                    p_contacts = None \<rparr> st of
             (Returns r, st') \<Rightarrow>
               (Message (''Lead '' @ [CHR 0x22] @ str (ur_name rawData) @ [CHR 0x22]
                           @ '' updated successfully.''), st')
           | (Throws e, st') \<Rightarrow> (FieldErrors [(''name'', ''Failed to update lead.'')], st'))"

subsection \<open>\<^verbatim>\<open>bulkUpdateLeadsAction\<close>\<close>

record User =
  user_id :: string
  user_name :: string
  user_email :: string
  role_id :: string
  role_name :: string

text \<open>
  The distribution list travels as JSON text. \<^verbatim>\<open>JSON.parse\<close> is the parameter
  \<open>JSON_parse\<close> (\<open>None\<close> when it throws a syntax error) and \<^verbatim>\<open>JSON.stringify\<close> the
  parameter \<open>JSON_stringify\<close>; a \<open>JObj\<close> holds the entries of a parsed object, each key
  once.
\<close>

datatype json =
  JNull | JBool bool | JNum int | JStr string | JArr "json list" | JObj "(string \<times> json) list"

definition z_distributionItem :: "json \<Rightarrow> (string \<times> string) option" where
  "z_distributionItem j =
     (case j of
        JObj kvs \<Rightarrow>
          (case (map_of kvs ''leadId'', map_of kvs ''assignedUserId'') of
             (Some (JStr l), Some (JStr a)) \<Rightarrow> Some (l, a)
           | _ \<Rightarrow> None)
      | _ \<Rightarrow> None)"

definition z_distributionList :: "json \<Rightarrow> (string \<times> string) list option" where
  "z_distributionList j =
     (case j of
        JArr items \<Rightarrow>
          if list_all (\<lambda>i. z_distributionItem i \<noteq> None) items
          then Some (concat (map (\<lambda>i. case z_distributionItem i of Some d \<Rightarrow> [d] | None \<Rightarrow> [])
                                 items))
          else None
      | _ \<Rightarrow> None)"

text \<open>The validated data of \<^verbatim>\<open>bulkUpdateLeadsSchema\<close>, or \<open>None\<close> when \<^verbatim>\<open>safeParse\<close>
  fails. \<^verbatim>\<open>leadIds\<close> comes from \<^verbatim>\<open>getAll\<close> and is always an array of strings.\<close>

definition bulkUpdateLeadsSchema ::
  "jsv \<Rightarrow> jsv \<Rightarrow> json option
     \<Rightarrow> (KanbanStage option \<times> string option \<times> (string \<times> string) list option) option" where
  "bulkUpdateLeadsSchema stg assignee distributionList =
     (if fst (z_optional (z_enum ''stage'' (map stage_name KANBAN_STAGES)) stg) = valid
         \<and> fst (z_optional (z_string ''assignedUserId'' (\<lambda>_. True) []) assignee) = valid
         \<and> (case distributionList of None \<Rightarrow> True | Some j \<Rightarrow> z_distributionList j \<noteq> None)
      then Some (KanbanStage_of stg, opt assignee,
                 case distributionList of None \<Rightarrow> None | Some j \<Rightarrow> z_distributionList j)
      else None)"

datatype BulkUpdateState = BulkMessage string | BulkError string

definition userNameOrNA :: "User list \<Rightarrow> string \<Rightarrow> string" where
  "userNameOrNA users uid =
     (case find (\<lambda>u. user_id u = uid) users of
        Some u \<Rightarrow> if user_name u = [] then ''N/A'' else user_name u
      | None \<Rightarrow> ''N/A'')"

text \<open>The confirmation of a single update: the stage wording when a stage was set,
  else the assignment wording, else \<^verbatim>\<open>"No updates performed."\<close>.\<close>

definition bulkUpdateMessage :: "User list \<Rightarrow> string list \<Rightarrow> BulkUpdates \<Rightarrow> string" where
  "bulkUpdateMessage users vLeadIds updates =
     (let message =
            (case u_stage updates of
               Some s \<Rightarrow>
                 String_nat (length vLeadIds) @ '' lead(s) moved to '' @ stage_name s @ ''.''
             | None \<Rightarrow>
                 (case u_assignedUserId updates of
                    Some u \<Rightarrow>
                      String_nat (length vLeadIds) @ '' lead(s) assigned to ''
                        @ userNameOrNA users u @ ''.''
                  | None \<Rightarrow> []))
      in if message = [] then ''No updates performed.'' else message)"

definition bulkUpdateLeadsAction ::
  "(string \<Rightarrow> json option) \<Rightarrow> User list \<Rightarrow> FormData \<Rightarrow> store \<Rightarrow> BulkUpdateState \<times> store" where
  "bulkUpdateLeadsAction JSON_parse users formData st =
     (let leadIds = formData_getAll formData ''leadIds'';
          stg = formData_get formData ''stage'';
          assignee = formData_get formData ''assignedUserId'';
          distributionData = formData_get formData ''distributionList''
      in case (if falsy distributionData then Some None
               else map_option Some (JSON_parse (str distributionData))) of
           None \<Rightarrow> (BulkError ''Invalid distribution data.'', st)
         | Some distributionList \<Rightarrow>
             (case bulkUpdateLeadsSchema (or_undefined stg) (or_undefined assignee)
                     distributionList of
                None \<Rightarrow> (BulkError ''Invalid data for bulk update.'', st)
              | Some (vStage, vAssignedUserId, vDistributionList) \<Rightarrow>
                  (case (case vDistributionList of
                           Some dl \<Rightarrow> if length dl > 0 then Some dl else None
                         | None \<Rightarrow> None) of
                     Some dl \<Rightarrow>
                       (case bulkUpdateLeadsInStore (map fst dl)
                               \<lparr> u_stage = None, u_assignedUserId = None,
                                 u_assignedUserIds = Some dl \<rparr> st of
                          (Returns _, st') \<Rightarrow>
                            (BulkMessage (String_nat (length dl)
                                          @ '' leads have been distributed successfully.''), st')
                        | (Throws e, st') \<Rightarrow> (BulkError ''Failed to update leads.'', st'))
                   | None \<Rightarrow>
                       (let updates =
                              \<lparr> u_stage = vStage, u_assignedUserId = truthy vAssignedUserId,
                                u_assignedUserIds = None \<rparr>
                        in (case (if u_stage updates \<noteq> None \<or> u_assignedUserId updates \<noteq> None
                                  then bulkUpdateLeadsInStore leadIds updates st
                                  else (Returns (), st)) of
                              (Returns _, st') \<Rightarrow>
                                (BulkMessage (bulkUpdateMessage users leadIds updates), st')
                            | (Throws e, st') \<Rightarrow>
                                (BulkError ''Failed to update leads.'', st'))))))"

section \<open>Lead distribution (\<^verbatim>\<open>distribute-leads-dialog.tsx\<close>)\<close>




section \<open>Kanban ordering (\<^verbatim>\<open>kanban-board.tsx\<close>)\<close>

text \<open>
  \<^verbatim>\<open>new Date(s).getTime()\<close> is the parameter \<open>getTime\<close>: the milliseconds of the date
  the string denotes, or \<open>None\<close> for \<^verbatim>\<open>NaN\<close> (an invalid date). A difference with a
  \<^verbatim>\<open>NaN\<close> operand is \<^verbatim>\<open>NaN\<close>.
\<close>

definition minus_num :: "int option \<Rightarrow> int option \<Rightarrow> int option" where
  "minus_num a b = (case (a, b) of (Some x, Some y) \<Rightarrow> Some (x - y) | _ \<Rightarrow> None)"

text \<open>
  \<^verbatim>\<open>Array.prototype.sort(comparefn)\<close> is stable and reads a \<^verbatim>\<open>NaN\<close> result as \<open>0\<close>. It
  is modelled by the stable insertion sort: an element goes in front of the first
  element it does not compare greater than. For a consistent comparator this is the
  order every engine returns. With an invalid date among the leads the comparator is not
  consistent and the order is left to the engine; the theorems below are about leads
  whose dates are valid.
\<close>

definition sortCompare :: "int option \<Rightarrow> int" where
  "sortCompare v = (case v of None \<Rightarrow> 0 | Some n \<Rightarrow> n)"

fun insert_cmp :: "('a \<Rightarrow> 'a \<Rightarrow> int option) \<Rightarrow> 'a \<Rightarrow> 'a list \<Rightarrow> 'a list" where
  "insert_cmp cmp x [] = [x]"
| "insert_cmp cmp x (y # ys) =
     (if sortCompare (cmp x y) \<le> 0 then x # y # ys else y # insert_cmp cmp x ys)"

definition js_sort :: "('a \<Rightarrow> 'a \<Rightarrow> int option) \<Rightarrow> 'a list \<Rightarrow> 'a list" where
  "js_sort cmp xs = foldr (insert_cmp cmp) xs []"

definition getNextFollowUp :: "(string \<Rightarrow> int option) \<Rightarrow> Lead \<Rightarrow> Task option" where
  "getNextFollowUp getTime lead =
     (case js_sort (\<lambda>a b. minus_num (getTime (dueDate a)) (getTime (dueDate b)))
             (filter (\<lambda>t. task_type t = Follow_up \<and> task_status t = Pending) (tasks lead)) of
        [] \<Rightarrow> None
      | t # _ \<Rightarrow> Some t)"

fun priorityOrder :: "Priority \<Rightarrow> int" where
  "priorityOrder High = 0"
| "priorityOrder Medium = 1"
| "priorityOrder Low = 2"

text \<open>\<^verbatim>\<open>a.activities?.[0]?.timestamp || a.createdAt\<close>: the first activity's timestamp
  unless there is no activity or the timestamp is the empty string.\<close>

definition lastActivity :: "(string \<Rightarrow> int option) \<Rightarrow> Lead \<Rightarrow> int option" where
  "lastActivity getTime a =
     getTime (case activities a of
                [] \<Rightarrow> createdAt a
              | act # _ \<Rightarrow> if timestamp act = [] then createdAt a else timestamp act)"

definition compareLeads :: "(string \<Rightarrow> int option) \<Rightarrow> Lead \<Rightarrow> Lead \<Rightarrow> int option" where
  "compareLeads getTime a b =
     (case (getNextFollowUp getTime a, getNextFollowUp getTime b) of
        (Some nextFollowUpA, Some nextFollowUpB) \<Rightarrow>
          let priorityA = priorityOrder (priority nextFollowUpA);
              priorityB = priorityOrder (priority nextFollowUpB)
          in if priorityA \<noteq> priorityB then Some (priorityA - priorityB)
             else minus_num (getTime (dueDate nextFollowUpA)) (getTime (dueDate nextFollowUpB))
      | (Some nextFollowUpA, None) \<Rightarrow> Some (- 1)
      | (None, Some nextFollowUpB) \<Rightarrow> Some 1
      | (None, None) \<Rightarrow> minus_num (lastActivity getTime b) (lastActivity getTime a))"

definition sortLeadsByPriority :: "(string \<Rightarrow> int option) \<Rightarrow> Lead list \<Rightarrow> Lead list" where
  "sortLeadsByPriority getTime ls = js_sort (compareLeads getTime) ls"

section \<open>Missed follow-up (\<^verbatim>\<open>dashboard/page.tsx\<close>)\<close>

text \<open>
  \<^verbatim>\<open>isToday(new Date(s))\<close> is the parameter \<open>isToday\<close>: whether the date the string
  denotes falls on the current calendar day.
\<close>

definition missedFollowUp :: "(string \<Rightarrow> bool) \<Rightarrow> Lead \<Rightarrow> bool" where
  "missedFollowUp isToday lead =
     (let hasTodaysFollowUp =
            list_ex (\<lambda>task. task_type task = Follow_up \<and> task_status task = Pending
                             \<and> isToday (dueDate task)) (tasks lead)
      in if \<not> hasTodaysFollowUp then False
         else
           let hasBeenContactedToday =
                 list_ex (\<lambda>activity. isToday (timestamp activity)) (activities lead)
           in \<not> hasBeenContactedToday)"

definition leadToFollowUp :: "(nat \<Rightarrow> Lead) \<Rightarrow> (string \<Rightarrow> bool) \<Rightarrow> store \<Rightarrow> Lead option \<times> store" where
  "leadToFollowUp rnd isToday st =
     (let (allLeads, st') = getLeads rnd st
      in (find (missedFollowUp isToday) allLeads, st'))"

section \<open>The derived views in the words of the specification\<close>

text \<open>The flag of the missed follow-up in the words of the specification: some task of
  type Follow-up and status Pending is due today, and no activity is from today.\<close>

definition missedFollowUp_spec :: "(string \<Rightarrow> bool) \<Rightarrow> Lead \<Rightarrow> bool" where
  "missedFollowUp_spec isToday l \<longleftrightarrow>
     (\<exists>t\<in>set (tasks l). task_type t = Follow_up \<and> task_status t = Pending
                          \<and> isToday (dueDate t))
     \<and> \<not> (\<exists>a\<in>set (activities l). isToday (timestamp a))"

text \<open>
  The Kanban precedence. A lead has a pending follow-up when one of its tasks is of type
  Follow-up and status Pending; "that task" is the one \<^verbatim>\<open>getNextFollowUp\<close> returns. The
  most recent activity of a lead is the latest of its activity timestamps, or its
  creation time when it has no activity. \<open>timeOf\<close> reads a valid date as its milliseconds.
\<close>

definition timeOf :: "(string \<Rightarrow> int option) \<Rightarrow> string \<Rightarrow> int" where
  "timeOf getTime s = (case getTime s of Some t \<Rightarrow> t | None \<Rightarrow> 0)"

definition hasPendingFollowUp :: "Lead \<Rightarrow> bool" where
  "hasPendingFollowUp l \<longleftrightarrow>
     (\<exists>t\<in>set (tasks l). task_type t = Follow_up \<and> task_status t = Pending)"

definition mostRecentActivity :: "(string \<Rightarrow> int option) \<Rightarrow> Lead \<Rightarrow> int" where
  "mostRecentActivity getTime l =
     (if activities l = [] then timeOf getTime (createdAt l)
      else Max (set (map (\<lambda>a. timeOf getTime (timestamp a)) (activities l))))"

text \<open>\<open>precedes a b\<close>: lead \<open>a\<close> may stand before lead \<open>b\<close> in the priority order.\<close>

definition precedes :: "(string \<Rightarrow> int option) \<Rightarrow> Lead \<Rightarrow> Lead \<Rightarrow> bool" where
  "precedes getTime a b \<longleftrightarrow>
     (hasPendingFollowUp b \<longrightarrow> hasPendingFollowUp a)
     \<and> (hasPendingFollowUp a \<and> hasPendingFollowUp b \<longrightarrow>
          (case (getNextFollowUp getTime a, getNextFollowUp getTime b) of
             (Some ta, Some tb) \<Rightarrow>
               priorityOrder (priority ta) < priorityOrder (priority tb)
               \<or> (priority ta = priority tb
                   \<and> timeOf getTime (dueDate ta) \<le> timeOf getTime (dueDate tb))
           | _ \<Rightarrow> False))
     \<and> (\<not> hasPendingFollowUp a \<and> \<not> hasPendingFollowUp b \<longrightarrow>
          mostRecentActivity getTime b \<le> mostRecentActivity getTime a)"

text \<open>\<open>earliestPending t l\<close>: \<open>t\<close> is a pending follow-up of \<open>l\<close> and none is due earlier.\<close>

definition earliestPending :: "(string \<Rightarrow> int option) \<Rightarrow> Task \<Rightarrow> Lead \<Rightarrow> bool" where
  "earliestPending getTime t l \<longleftrightarrow>
     t \<in> set (tasks l) \<and> task_type t = Follow_up \<and> task_status t = Pending
     \<and> (\<forall>t'\<in>set (tasks l). task_type t' = Follow_up \<and> task_status t' = Pending \<longrightarrow>
           timeOf getTime (dueDate t) \<le> timeOf getTime (dueDate t'))"

text \<open>
  The dates of a stored lead are valid: the store writes them with \<^verbatim>\<open>toISOString()\<close>,
  and \<^verbatim>\<open>addTaskAction\<close> accepts only a due date that \<^verbatim>\<open>Date.parse\<close> reads. Activities
  are kept newest first: \<^verbatim>\<open>addActivity\<close> puts the new one at the head, and
  \<^verbatim>\<open>generateLeads\<close> sorts them.
\<close>

definition datesValid :: "(string \<Rightarrow> int option) \<Rightarrow> Lead \<Rightarrow> bool" where
  "datesValid getTime l \<longleftrightarrow>
     getTime (createdAt l) \<noteq> None
     \<and> (\<forall>t\<in>set (tasks l). getTime (dueDate t) \<noteq> None)
     \<and> (\<forall>a\<in>set (activities l). timestamp a \<noteq> [] \<and> getTime (timestamp a) \<noteq> None)"

definition newestFirst :: "(string \<Rightarrow> int option) \<Rightarrow> Lead \<Rightarrow> bool" where
  "newestFirst getTime l \<longleftrightarrow>
     sorted_wrt (\<lambda>a b. timeOf getTime (timestamp b) \<le> timeOf getTime (timestamp a))
       (activities l)"

text \<open>The sort key the comparator of \<^verbatim>\<open>sortLeadsByPriority\<close> amounts to on valid dates,
  ordered lexicographically.\<close>

definition leadKey :: "(string \<Rightarrow> int option) \<Rightarrow> Lead \<Rightarrow> nat \<times> int \<times> int" where
  "leadKey getTime l =
     (case getNextFollowUp getTime l of
        Some t \<Rightarrow> (0, priorityOrder (priority t), timeOf getTime (dueDate t))
      | None \<Rightarrow> (1, 0, - sortCompare (lastActivity getTime l)))"


section \<open>Example data\<close>

text \<open>Concrete leads, inputs and stores on which the theorems below are run.\<close>

definition exampleLead :: "string \<Rightarrow> Lead" where
  "exampleLead i =
     \<lparr> lead_id = i, name = ''Asha Rao'', avatarUrl = i, email = ''asha@example.com'',
       stage = Contacted, source = ''Website'', assignedUserId = ''user-5'',
       createdAt = ''2024-01-01T00:00:00.000Z'', phoneNumbers = Some [],
       education = None, college = None, status = None, courseInterest = None,
       address = None, city = None, gender = None, dob = None,
       activities = [], tasks = [], documents = [], contacts = [] \<rparr>"

definition exampleRnd :: "nat \<Rightarrow> Lead" where
  "exampleRnd i = exampleLead []"

definition exampleInput :: LeadInput where
  "exampleInput =
     \<lparr> in_name = ''Ravi Nair'', in_email = ''ravi@example.com'', in_source = ''Website'',
       in_phoneNumbers = None, in_education = None, in_college = None, in_status = None,
       in_courseInterest = None, in_address = None, in_city = None, in_gender = None,
       in_dob = None \<rparr>"

definition exampleStore :: "Lead list \<Rightarrow> store" where
  "exampleStore ls = \<lparr> leads = ls, PlaceHolderImages = [] \<rparr>"

text \<open>The store of a fresh process: nothing generated yet.\<close>

definition emptyStore :: store where
  "emptyStore = \<lparr> leads = [], PlaceHolderImages = [] \<rparr>"

text \<open>The partial \<^verbatim>\<open>{ id, assignedUserId }\<close>.\<close>

definition onlyAssignedUserId :: "string \<Rightarrow> string \<Rightarrow> LeadPartial" where
  "onlyAssignedUserId i u =
     \<lparr> p_id = i, p_name = None, p_avatarUrl = None, p_email = None, p_stage = None,
       p_source = None, p_assignedUserId = Some u, p_createdAt = None, p_phoneNumbers = None,
       p_education = None, p_college = None, p_status = None, p_courseInterest = None,
       p_address = None, p_city = None, p_gender = None, p_dob = None, p_activities = None,
       p_tasks = None, p_documents = None, p_contacts = None \<rparr>"

definition exampleIsEmail :: "string \<Rightarrow> bool" where
  "exampleIsEmail s = (CHR ''@'' \<in> set s)"

text \<open>An update form whose id belongs to no lead.\<close>

definition updateForm :: FormData where
  "updateForm =
     [(''id'', ''999''), (''name'', ''Asha Rao''), (''email'', ''asha@example.com''),
      (''assignedUserId'', ''user-6''), (''source'', ''Website'')]"

text \<open>A create form as the add-lead dialog submits it when only the name, the e-mail,
  the source "Other" and its specify-field are filled in, and one with every field.\<close>

definition otherSourceForm :: FormData where
  "otherSourceForm =
     [(''name'', ''Ravi Nair''), (''email'', ''ravi@example.com''), (''source'', ''Other''),
      (''otherSource'', ''Book fair'')]"

definition completeForm :: FormData where
  "completeForm =
     otherSourceForm @
     [(''socialMediaSource'', ''Instagram''), (''referralSource'', ''A friend''),
      (''education'', ''B.Com''), (''college'', ''IGNOU''), (''status'', ''Passed''),
      (''courseInterest'', ''Data Science''), (''address'', ''12 Hill Road''),
      (''city'', ''Pune''), (''gender'', ''Male''), (''dob'', ''2001-02-03T00:00:00.000Z'')]"

text \<open>A bulk update that names a stage and an assignee.\<close>

definition bulkForm :: FormData where
  "bulkForm =
     [(''leadIds'', ''001''), (''leadIds'', ''002''), (''stage'', ''Qualified''),
      (''assignedUserId'', ''user-6'')]"

definition exampleTask :: "string \<Rightarrow> TaskType \<Rightarrow> TaskStatus \<Rightarrow> Priority \<Rightarrow> string \<Rightarrow> Task" where
  "exampleTask lid ty stat prio due =
     \<lparr> task_id = ''TSK-'' @ lid, task_leadId = lid, task_type = ty, dueDate = due,
       task_status = stat, priority = prio, task_notes = ''Follow up'',
       task_assignedUserId = ''user-5'' \<rparr>"

definition exampleActivity :: "string \<Rightarrow> Activity" where
  "exampleActivity ts =
     \<lparr> activity_id = ''ACT-1'', activity_type = Call, timestamp = ts, outcome = ''No answer'',
       activity_notes = ''Called once'', userId = ''user-5'' \<rparr>"

text \<open>Today is the first of May 2024.\<close>

definition exampleIsToday :: "string \<Rightarrow> bool" where
  "exampleIsToday s = (take 10 s = ''2024-05-01'')"

text \<open>Three leads with a follow-up due today: the first was called today, the second
  yesterday, the third never.\<close>

definition followUpLeads :: "Lead list" where
  "followUpLeads =
     [ (exampleLead ''001'')
         \<lparr> tasks := [exampleTask ''001'' Follow_up Pending High ''2024-05-01T09:00:00.000Z''],
           activities := [exampleActivity ''2024-05-01T08:00:00.000Z''] \<rparr>,
       (exampleLead ''002'')
         \<lparr> tasks := [exampleTask ''002'' Meeting Pending High ''2024-05-01T09:00:00.000Z'',
                     exampleTask ''002'' Follow_up Pending Low ''2024-05-01T15:00:00.000Z''],
           activities := [exampleActivity ''2024-04-30T08:00:00.000Z''] \<rparr>,
       (exampleLead ''003'')
         \<lparr> tasks := [exampleTask ''003'' Follow_up Pending Low ''2024-05-01T15:00:00.000Z''] \<rparr> ]"

text \<open>The dates of the examples, in milliseconds since the epoch.\<close>

definition exampleGetTime :: "string \<Rightarrow> int option" where
  "exampleGetTime =
     map_of [(''2024-01-01T00:00:00.000Z'', 1704067200000),
             (''2024-04-30T08:00:00.000Z'', 1714464000000),
             (''2024-05-01T15:00:00.000Z'', 1714575600000),
             (''2024-05-02T09:00:00.000Z'', 1714640400000)]"

text \<open>A lead with a pending High follow-up due tomorrow, one with a pending Low follow-up
  due today, and one without follow-up whose last activity was yesterday.\<close>

definition kanbanHigh :: Lead where
  "kanbanHigh = (exampleLead ''001'')
     \<lparr> tasks := [exampleTask ''001'' Follow_up Pending High ''2024-05-02T09:00:00.000Z''] \<rparr>"

definition kanbanLow :: Lead where
  "kanbanLow = (exampleLead ''002'')
     \<lparr> tasks := [exampleTask ''002'' Follow_up Pending Low ''2024-05-01T15:00:00.000Z''] \<rparr>"

definition kanbanNone :: Lead where
  "kanbanNone = (exampleLead ''003'')
     \<lparr> activities := [exampleActivity ''2024-04-30T08:00:00.000Z''] \<rparr>"














section \<open>The store: reads, updates and deletions\<close>

lemma getLeads_nonempty: "leads st \<noteq> [] \<Longrightarrow> getLeads rnd st = (leads st, st)"
  by (simp add: getLeads_def)


lemma findIndex_None: "findIndex P xs = None \<longleftrightarrow> (\<forall>x\<in>set xs. \<not> P x)"
  by (induction xs) auto


lemma find_filter_notin:
  "find (\<lambda>l. f l = i) (filter (\<lambda>l. f l \<notin> S) xs)
     = (if i \<in> S then None else find (\<lambda>l. f l = i) xs)"
  by (induction xs) auto


text \<open>The fields \<^verbatim>\<open>addLead\<close> sets itself, whatever the input and the store.\<close>

lemma addLead_creation_fields:
  "stage (fst (addLead rnd ta tc inp st)) = New
   \<and> map (\<lambda>a. (activity_type a, outcome a)) (activities (fst (addLead rnd ta tc inp st)))
       = [(System, ''Lead Created'')]
   \<and> tasks (fst (addLead rnd ta tc inp st)) = []
   \<and> documents (fst (addLead rnd ta tc inp st)) = []
   \<and> assignedUserId (fst (addLead rnd ta tc inp st)) = ''user-1''"
  by (simp add: addLead_def split_beta Let_def)

text \<open>The id \<^verbatim>\<open>addLead\<close> issues is a function of the number of leads in the store.\<close>

lemma addLead_id:
  "lead_id (fst (addLead rnd ta tc inp st))
     = padStart 3 CHR ''0'' (String_nat (length (fst (getLeads rnd st)) + 1))"
  by (simp add: addLead_def split_beta Let_def)

text \<open>While a lead remains after a bulk delete, the deleted ids are not found and every
  other id is looked up as before.\<close>

lemma bulkDelete_lookup:
  assumes "\<exists>l\<in>set (leads st). lead_id l \<notin> set ids"
  shows "fst (findLead rnd i (bulkDeleteLeads ids st))
           = (if i \<in> set ids then None else find (\<lambda>l. lead_id l = i) (leads st))"
proof -
  let ?ls' = "filter (\<lambda>lead. lead_id lead \<notin> set ids) (leads st)"
  have ne: "?ls' \<noteq> []"
    using assms by (auto simp: filter_empty_conv)
  have "find (\<lambda>l. lead_id l = i) ?ls'
          = (if i \<in> set ids then None else find (\<lambda>l. lead_id l = i) (leads st))"
    by (rule find_filter_notin)
  with ne show ?thesis
    by (simp add: findLead_def bulkDeleteLeads_def getLeads_def)
qed

text \<open>
  Claim C1 (lead ids are unique and never reused). The id is computed from the current
  length of the array, so it is issued again once a lead has been deleted. On a fresh
  store the first read generates the leads \<open>001\<close> to \<open>100\<close>; a first \<^verbatim>\<open>addLead\<close> issues
  \<open>101\<close>; after \<^verbatim>\<open>bulkDeleteLeads(["101"])\<close> the next \<^verbatim>\<open>addLead\<close> issues \<open>101\<close> again.
\<close>

theorem addLead_reissues_deleted_id:
  "(let (ls, s0) = getLeads exampleRnd emptyStore;
        (l1, s1) = addLead exampleRnd ''2024-05-01T10:00:00.000Z'' ''2024-05-01T10:00:00.001Z''
                     exampleInput s0;
        s2 = bulkDeleteLeads [lead_id l1] s1;
        (l2, s3) = addLead exampleRnd ''2024-05-02T10:00:00.000Z'' ''2024-05-02T10:00:00.001Z''
                     exampleInput s2
    in lead_id l1 = ''101'' \<and> lead_id l2 = ''101'')"
  by code_simp

text \<open>
  Claim C4 (creation invariant). The lead \<^verbatim>\<open>addLead\<close> returns is in stage New, has the
  single System activity "Lead Created", no tasks, no documents and the owner \<open>user-1\<close>,
  but its id can be one that is already in use: with the generated leads \<open>001\<close> to
  \<open>100\<close> in the store and lead \<open>001\<close> deleted, the new lead gets the id \<open>100\<close> of a lead
  that is still there.
\<close>

theorem addLead_issues_id_in_use:
  "(let (ls, s0) = getLeads exampleRnd emptyStore;
        s1 = bulkDeleteLeads [''001''] s0;
        (l, s2) = addLead exampleRnd ''2024-05-01T10:00:00.000Z'' ''2024-05-01T10:00:00.001Z''
                    exampleInput s1
    in stage l = New
       \<and> map (\<lambda>a. (activity_type a, outcome a)) (activities l) = [(System, ''Lead Created'')]
       \<and> tasks l = [] \<and> documents l = [] \<and> assignedUserId l = ''user-1''
       \<and> lead_id l = ''100'' \<and> ''100'' \<in> set (map lead_id (leads s1)))"
  by code_simp

text \<open>
  Claim C2 (update of an unknown id), as stated: the mutation layer reports a failure.
  It does not. With the single lead \<open>001\<close> in the store and a valid form for the id
  \<open>999\<close>, \<^verbatim>\<open>updateLeadAction\<close> returns the confirmation message.
\<close>

theorem updateLeadAction_unknown_id_reports_success:
  "updateLeadAction exampleRnd exampleIsEmail updateForm (exampleStore [exampleLead ''001''])
     = (Message (''Lead '' @ [CHR 0x22] @ ''Asha Rao'' @ [CHR 0x22] @ '' updated successfully.''),
        exampleStore [exampleLead ''001''])"
  by code_simp

text \<open>
  Claim C2, amended: for every update request whose id matches no lead of a store that
  holds leads, the call of \<^verbatim>\<open>updateLead\<close> returns \<^verbatim>\<open>null\<close> (it does not throw) and leaves
  the store as it was.
\<close>

theorem updateLead_unknown_id_returns_null:
  assumes "leads st \<noteq> []" and "\<forall>l\<in>set (leads st). lead_id l \<noteq> p_id p"
  shows "updateLeadInStore rnd p st = (Returns None, st)"
proof -
  have "findIndex (\<lambda>lead. lead_id lead = p_id p) (leads st) = None"
    using assms(2) by (simp add: findIndex_None)
  then show ?thesis
    using assms(1) by (simp add: updateLeadInStore_def updateLead_def getLeads_def)
qed

theorem updateLead_unknown_id_returns_null_witness:
  "leads (exampleStore [exampleLead ''001'']) \<noteq> []
   \<and> updateLeadInStore exampleRnd (onlyAssignedUserId ''999'' ''user-6'')
         (exampleStore [exampleLead ''001''])
       = (Returns None, exampleStore [exampleLead ''001''])"
proof -
  have h1: "leads (exampleStore [exampleLead ''001'']) \<noteq> []"
    by (simp add: exampleStore_def)
  have h2: "\<forall>l\<in>set (leads (exampleStore [exampleLead ''001''])).
              lead_id l \<noteq> p_id (onlyAssignedUserId ''999'' ''user-6'')"
    by (simp add: exampleStore_def exampleLead_def onlyAssignedUserId_def)
  from updateLead_unknown_id_returns_null[OF h1 h2, of exampleRnd] h1
  show ?thesis by simp
qed



text \<open>
  Claim C9 (bulk delete completeness). When the two deleted leads were the only ones,
  the array is empty afterwards, and the next read fills it with generated leads again.
  On a fresh store the first read generates the leads \<open>001\<close> to \<open>100\<close>; the leads \<open>003\<close>
  to \<open>100\<close> are deleted, which leaves \<open>001\<close> and \<open>002\<close>; after
  \<^verbatim>\<open>bulkDeleteLeads(["001", "002"])\<close> the array is empty, and the lookup of the deleted id
  \<open>001\<close> finds the newly generated lead \<open>001\<close>.
\<close>

theorem bulkDelete_of_all_leads_lookup_finds_deleted_id:
  "(let (ls, s0) = getLeads exampleRnd emptyStore;
        s1 = bulkDeleteLeads (map (\<lambda>i. padStart 3 CHR ''0'' (String_nat i)) [3..<101]) s0;
        s2 = bulkDeleteLeads [''001'', ''002''] s1
    in map lead_id (leads s1) = [''001'', ''002'']
       \<and> leads s2 = []
       \<and> fst (findLead exampleRnd ''001'' s2) = Some (generatedLead exampleRnd 1)
       \<and> lead_id (generatedLead exampleRnd 1) = ''001'')"
  by code_simp

section \<open>The actions\<close>

lemma merge_status_aborted:
  "merge_status a b = aborted \<longleftrightarrow> a = aborted \<or> b = aborted"
  by (simp add: merge_status_def)

lemma refine_aborted: "fst inner = aborted \<Longrightarrow> refine ok iss inner = inner"
  by (simp add: refine_def)

lemma addLeadObject_otherSource_null:
  assumes "r_otherSource data = Null"
  shows "fst (addLeadObject isEmail data) = aborted"
    and "(''otherSource'', ''Expected string, received null'')
            \<in> set (snd (addLeadObject isEmail data))"
proof -
  let ?p = "z_optional (z_string ''otherSource'' (\<lambda>_. True) []) (r_otherSource data)"
  have p: "?p = (aborted, [(''otherSource'', ''Expected string, received null'')])"
    using assms by (simp add: z_optional_def z_string_def invalid_type_def received_def)
  show "fst (addLeadObject isEmail data) = aborted"
    by (simp add: addLeadObject_def z_object_def merge_status_aborted p)
  show "(''otherSource'', ''Expected string, received null'')
            \<in> set (snd (addLeadObject isEmail data))"
    by (simp add: addLeadObject_def z_object_def p)
qed

text \<open>
  A create form without the key \<^verbatim>\<open>otherSource\<close> is rejected with an error filed under
  \<^verbatim>\<open>otherSource\<close>, and nothing is written, whatever the other fields are.
\<close>

lemma addLeadAction_otherSource_absent:
  assumes "formData_get formData ''otherSource'' = Null"
  shows "\<exists>errs. addLeadAction rnd isEmail ta tc formData st = (FieldErrors errs, st)
               \<and> (''otherSource'', ''Expected string, received null'') \<in> set errs"
proof -
  define raw where "raw =
            \<lparr> r_name = formData_get formData ''name'',
              r_email = formData_get formData ''email'',
              r_phoneNumbers = collectPhoneNumbers formData,
              r_source = formData_get formData ''source'',
              r_socialMediaSource = formData_get formData ''socialMediaSource'',
              r_otherSource = formData_get formData ''otherSource'',
              r_referralSource = formData_get formData ''referralSource'',
              r_education = formData_get formData ''education'',
              r_college = formData_get formData ''college'',
              r_status = formData_get formData ''status'',
              r_courseInterest = formData_get formData ''courseInterest'',
              r_address = formData_get formData ''address'',
              r_city = formData_get formData ''city'',
              r_gender = formData_get formData ''gender'',
              r_dob = formData_get formData ''dob'' \<rparr>"
  have "r_otherSource raw = Null"
    using assms by (simp add: raw_def)
  from addLeadObject_otherSource_null[OF this, of isEmail]
  have "addLeadFormSchema isEmail raw = addLeadObject isEmail raw"
    and "fst (addLeadObject isEmail raw) = aborted"
    and "(''otherSource'', ''Expected string, received null'')
           \<in> set (snd (addLeadObject isEmail raw))"
    by (simp_all add: addLeadFormSchema_def refine_aborted)
  then show ?thesis
    by (simp add: addLeadAction_def Let_def raw_def[symmetric])
qed

text \<open>
  When the form carries every key of the schema with a valid value, the source "Other"
  and a non-empty specify-field, the lead is created and its source is the
  specify-field's value.
\<close>

lemma addLeadAction_other_with_specify:
  assumes "formData_get fd ''name'' = Str n" and "2 \<le> length n"
      and "formData_get fd ''email'' = Str e" and "isEmail e"
      and "z_phoneNumbers (collectPhoneNumbers fd) = (valid, [])"
      and "formData_get fd ''source'' = Str ''Other''"
      and "formData_get fd ''otherSource'' = Str v" and "v \<noteq> []"
      and "formData_get fd ''socialMediaSource'' = Str a1"
      and "formData_get fd ''referralSource'' = Str a2"
      and "formData_get fd ''education'' = Str a3"
      and "formData_get fd ''college'' = Str a4"
      and "formData_get fd ''status'' = Str a5" and "a5 \<in> set [''Passed'', ''Pursuing'']"
      and "formData_get fd ''courseInterest'' = Str a6"
      and "formData_get fd ''address'' = Str a7"
      and "formData_get fd ''city'' = Str a8"
      and "formData_get fd ''gender'' = Str a9" and "a9 \<in> set [''Male'', ''Female'', ''Other'']"
      and "formData_get fd ''dob'' = Str a10"
  shows "fst (addLeadAction rnd isEmail ta tc fd st)
           = Message (''Lead '' @ [CHR 0x22] @ n @ [CHR 0x22] @ '' created successfully.'')
       \<and> leads (snd (addLeadAction rnd isEmail ta tc fd st))
           = fst (addLead rnd ta tc
                    \<lparr> in_name = n, in_email = e, in_source = v,
                      in_phoneNumbers = collectPhoneNumbers fd,
                      in_education = Some a3, in_college = Some a4,
                      in_status = AcademicStatus_of (Str a5),
                      in_courseInterest = Some a6, in_address = Some a7, in_city = Some a8,
                      in_gender = Gender_of (Str a9), in_dob = Some a10 \<rparr> st)
             # fst (getLeads rnd st)
       \<and> source (hd (leads (snd (addLeadAction rnd isEmail ta tc fd st)))) = v"
proof -
  have obj: "addLeadObject isEmail
            \<lparr> r_name = Str n, r_email = Str e, r_phoneNumbers = collectPhoneNumbers fd,
              r_source = Str ''Other'', r_socialMediaSource = Str a1, r_otherSource = Str v,
              r_referralSource = Str a2, r_education = Str a3, r_college = Str a4,
              r_status = Str a5, r_courseInterest = Str a6, r_address = Str a7,
              r_city = Str a8, r_gender = Str a9, r_dob = Str a10 \<rparr> = (valid, [])"
    using assms(2,4,5,14,19)
    by (simp add: addLeadObject_def z_object_def z_string_def z_optional_def z_enum_def
          merge_status_def)
  have sch: "addLeadFormSchema isEmail
            \<lparr> r_name = Str n, r_email = Str e, r_phoneNumbers = collectPhoneNumbers fd,
              r_source = Str ''Other'', r_socialMediaSource = Str a1, r_otherSource = Str v,
              r_referralSource = Str a2, r_education = Str a3, r_college = Str a4,
              r_status = Str a5, r_courseInterest = Str a6, r_address = Str a7,
              r_city = Str a8, r_gender = Str a9, r_dob = Str a10 \<rparr> = (valid, [])"
    using assms(8) by (simp add: addLeadFormSchema_def obj refine_def falsy_def)
  have view: "leads (snd (getLeads rnd st)) = fst (getLeads rnd st)"
    by (auto simp: getLeads_def generateLeads_def Let_def)
  show ?thesis
    using assms(1,3,6,7,9-13,15-18,20)
    by (simp add: addLeadAction_def Let_def sch addLeadToStore_def split_beta str_def opt_def
          addLead_def view)
qed

text \<open>The same on the complete example form.\<close>

lemma addLeadAction_complete_form:
  "(let (r, st') = addLeadAction exampleRnd exampleIsEmail ''2024-05-01T10:00:00.000Z''
                     ''2024-05-01T10:00:00.001Z'' completeForm
                     (exampleStore [exampleLead ''001''])
    in r = Message (''Lead '' @ [CHR 0x22] @ ''Ravi Nair'' @ [CHR 0x22]
                      @ '' created successfully.'')
       \<and> map (\<lambda>l. (lead_id l, source l)) (leads st')
           = [(''002'', ''Book fair''), (''001'', ''Website'')])"
  by code_simp

text \<open>
  Claim C6 (conditional source). A form with the source "Other" and its specify-field
  supplied, and the optional fields left blank (the dialog does not append a blank field,
  so \<^verbatim>\<open>formData.get\<close> gives \<^verbatim>\<open>null\<close> for it), is rejected: \<^verbatim>\<open>addLeadAction\<close> passes the
  \<^verbatim>\<open>null\<close>s to the schema, whose optional keys accept \<^verbatim>\<open>undefined\<close> only. No lead is
  stored. (\<^verbatim>\<open>updateLeadAction\<close> converts such values with \<^verbatim>\<open>|| undefined\<close>.)
\<close>

theorem addLeadAction_rejects_blank_optional_fields:
  "addLeadAction exampleRnd exampleIsEmail ''2024-05-01T10:00:00.000Z''
      ''2024-05-01T10:00:00.001Z'' otherSourceForm (exampleStore [exampleLead ''001''])
     = (FieldErrors
          [(''socialMediaSource'', ''Expected string, received null''),
           (''referralSource'', ''Expected string, received null''),
           (''education'', ''Expected string, received null''),
           (''college'', ''Expected string, received null''),
           (''status'', ''Expected '' @ joinValues [''Passed'', ''Pursuing'']
                          @ '', received null''),
           (''courseInterest'', ''Expected string, received null''),
           (''address'', ''Expected string, received null''),
           (''city'', ''Expected string, received null''),
           (''gender'', ''Expected '' @ joinValues [''Male'', ''Female'', ''Other'']
                          @ '', received null''),
           (''dob'', ''Expected string, received null'')],
        exampleStore [exampleLead ''001''])"
  by code_simp

lemma stage_name_nonempty: "stage_name s \<noteq> []"
  by (cases s) simp_all

lemma KanbanStage_of_stage_name: "KanbanStage_of (Str (stage_name s)) = Some s"
  by (cases s) (simp_all add: KanbanStage_of_def KANBAN_STAGES_def)

lemma stage_name_in_enum: "stage_name s \<in> set (map stage_name KANBAN_STAGES)"
  by (cases s) (simp_all add: KANBAN_STAGES_def)

lemma bulkUpdateLeadsSchema_stage_assignee:
  "u \<noteq> [] \<Longrightarrow>
   bulkUpdateLeadsSchema (or_undefined (Str (stage_name s))) (or_undefined (Str u)) None
     = Some (Some s, Some u, None)"
  using stage_name_in_enum[of s]
  by (simp add: bulkUpdateLeadsSchema_def or_undefined_def stage_name_nonempty z_optional_def
        z_enum_def z_string_def KanbanStage_of_stage_name opt_def del: set_map)

text \<open>
  Claim C10 (bulk update with a stage and an assignee). When the form names a stage and a
  non-empty assignee and carries no distribution list, every lead whose id is among the
  form's \<^verbatim>\<open>leadIds\<close> gets both the stage and the assignee, every other lead is left as
  it is, and the message is the stage wording with the number of ids, which differs from
  the assignment wording.
\<close>

theorem bulkUpdateLeadsAction_stage_and_assignee:
  assumes "formData_get formData ''stage'' = Str (stage_name s)"
      and "formData_get formData ''assignedUserId'' = Str u" and "u \<noteq> []"
      and "falsy (formData_get formData ''distributionList'')"
  shows "bulkUpdateLeadsAction JSON_parse users formData st =
           (BulkMessage (String_nat (length (formData_getAll formData ''leadIds''))
                          @ '' lead(s) moved to '' @ stage_name s @ ''.''),
            st\<lparr> leads :=
                  map (\<lambda>lead. if lead_id lead \<in> set (formData_getAll formData ''leadIds'')
                               then lead\<lparr> stage := s, assignedUserId := u \<rparr> else lead)
                      (leads st) \<rparr>)
       \<and> String_nat (length (formData_getAll formData ''leadIds''))
             @ '' lead(s) moved to '' @ stage_name s @ ''.''
           \<noteq> String_nat (length (formData_getAll formData ''leadIds''))
             @ '' lead(s) assigned to '' @ userNameOrNA users u @ ''.''"
  using assms bulkUpdateLeadsSchema_stage_assignee[of u s]
  by (simp add: bulkUpdateLeadsAction_def Let_def bulkUpdateLeadsInStore_def bulkUpdateLeads_def
        truthy_def bulkUpdateMessage_def stage_name_nonempty assignSingle_def spread_def)

theorem bulkUpdateLeadsAction_stage_and_assignee_witness:
  "bulkUpdateLeadsAction (\<lambda>s. None) [] bulkForm
      (exampleStore [exampleLead ''003'', exampleLead ''001''])
     = (BulkMessage ''2 lead(s) moved to Qualified.'',
        exampleStore [exampleLead ''003'',
                      (exampleLead ''001'')\<lparr> stage := Qualified, assignedUserId := ''user-6'' \<rparr>])"
proof -
  have h1: "formData_get bulkForm ''stage'' = Str (stage_name Qualified)"
    by (simp add: formData_get_def bulkForm_def)
  have h2: "formData_get bulkForm ''assignedUserId'' = Str ''user-6''"
    by (simp add: formData_get_def bulkForm_def)
  have h3: "''user-6'' \<noteq> []"
    by simp
  have h4: "falsy (formData_get bulkForm ''distributionList'')"
    by (simp add: formData_get_def bulkForm_def falsy_def)
  have ids: "formData_getAll bulkForm ''leadIds'' = [''001'', ''002'']"
    by (simp add: formData_getAll_def bulkForm_def)
  have n: "String_nat (Suc (Suc 0)) = ''2''"
    by (simp add: String_nat.simps)
  from bulkUpdateLeadsAction_stage_and_assignee[OF h1 h2 h3 h4,
      of "\<lambda>s. None" "[]" "exampleStore [exampleLead ''003'', exampleLead ''001'']"]
  show ?thesis
    by (simp add: ids n exampleStore_def exampleLead_def)
qed

section \<open>Missed follow-up detection\<close>

lemma missedFollowUp_iff: "missedFollowUp isToday l \<longleftrightarrow> missedFollowUp_spec isToday l"
  by (auto simp: missedFollowUp_def missedFollowUp_spec_def list_ex_iff Let_def)

text \<open>
  Claim C7 (missed follow-up). The predicate of the dashboard is the one of the
  specification, and the lead it surfaces is the first lead of the collection that
  satisfies it: no lead is surfaced exactly when none qualifies, and a surfaced lead
  qualifies and has no qualifying lead before it.
\<close>

theorem leadToFollowUp_first_missed_follow_up:
  "(\<forall>l. missedFollowUp isToday l \<longleftrightarrow> missedFollowUp_spec isToday l)
   \<and> (case fst (leadToFollowUp rnd isToday st) of
        None \<Rightarrow> \<forall>l\<in>set (fst (getLeads rnd st)). \<not> missedFollowUp_spec isToday l
      | Some l \<Rightarrow>
          \<exists>i<length (fst (getLeads rnd st)).
             fst (getLeads rnd st) ! i = l \<and> missedFollowUp_spec isToday l
             \<and> (\<forall>j<i. \<not> missedFollowUp_spec isToday (fst (getLeads rnd st) ! j)))"
proof -
  let ?ls = "fst (getLeads rnd st)"
  have r: "fst (leadToFollowUp rnd isToday st) = find (missedFollowUp_spec isToday) ?ls"
    using missedFollowUp_iff[of isToday]
    by (simp add: leadToFollowUp_def split_beta Let_def cong: find_cong)
  show ?thesis
    unfolding r
    by (auto simp: missedFollowUp_iff find_None_iff find_Some_iff split: option.splits)
qed

theorem leadToFollowUp_first_missed_follow_up_witness:
  "fst (leadToFollowUp exampleRnd exampleIsToday (exampleStore followUpLeads))
     = Some (followUpLeads ! 1)
   \<and> missedFollowUp_spec exampleIsToday (followUpLeads ! 1)
   \<and> \<not> missedFollowUp_spec exampleIsToday (followUpLeads ! 0)
   \<and> missedFollowUp_spec exampleIsToday (followUpLeads ! 2)"
proof -
  have r: "fst (leadToFollowUp exampleRnd exampleIsToday (exampleStore followUpLeads))
             = Some (followUpLeads ! 1)"
    by code_simp
  have m: "missedFollowUp exampleIsToday (followUpLeads ! 1)"
          "\<not> missedFollowUp exampleIsToday (followUpLeads ! 0)"
          "missedFollowUp exampleIsToday (followUpLeads ! 2)"
    by code_simp+
  from leadToFollowUp_first_missed_follow_up
         [of exampleIsToday exampleRnd "exampleStore followUpLeads"] r m
  show ?thesis by simp
qed

section \<open>Kanban priority order\<close>

lemma set_insert_cmp: "set (insert_cmp cmp x ys) = insert x (set ys)"
  by (induction ys) auto

lemma set_js_sort: "set (js_sort cmp xs) = set xs"
  by (induction xs) (simp_all add: js_sort_def set_insert_cmp)

lemma insert_cmp_insort_key:
  "\<forall>y\<in>set ys. (sortCompare (cmp x y) \<le> 0) = (key x \<le> key y) \<Longrightarrow>
   insert_cmp cmp x ys = insort_key key x ys"
  by (induction ys) auto

lemma js_sort_sort_key:
  "\<forall>x\<in>set xs. \<forall>y\<in>set xs. (sortCompare (cmp x y) \<le> 0) = (key x \<le> key y) \<Longrightarrow>
   js_sort cmp xs = sort_key key xs"
proof (induction xs)
  case Nil
  then show ?case by (simp add: js_sort_def)
next
  case (Cons x xs)
  then have IH: "js_sort cmp xs = sort_key key xs" by simp
  have "insert_cmp cmp x (sort_key key xs) = insort_key key x (sort_key key xs)"
    using Cons.prems by (intro insert_cmp_insort_key) simp
  with IH show ?case by (simp add: js_sort_def)
qed

lemma js_sort_Nil_iff: "js_sort cmp xs = [] \<longleftrightarrow> xs = []"
proof -
  have "(js_sort cmp xs = []) = (set (js_sort cmp xs) = {})"
    by (rule set_empty[symmetric])
  also have "\<dots> = (set xs = {})"
    by (simp only: set_js_sort)
  also have "\<dots> = (xs = [])"
    by (rule set_empty)
  finally show ?thesis .
qed

lemma getNextFollowUp_None:
  "getNextFollowUp getTime l = None \<longleftrightarrow> \<not> hasPendingFollowUp l"
proof -
  let ?ps = "filter (\<lambda>t. task_type t = Follow_up \<and> task_status t = Pending) (tasks l)"
  let ?s = "js_sort (\<lambda>a b. minus_num (getTime (dueDate a)) (getTime (dueDate b))) ?ps"
  have "getNextFollowUp getTime l = None \<longleftrightarrow> ?s = []"
    by (simp add: getNextFollowUp_def split: list.splits)
  also have "\<dots> \<longleftrightarrow> ?ps = []"
    by (rule js_sort_Nil_iff)
  also have "\<dots> \<longleftrightarrow> \<not> hasPendingFollowUp l"
    by (auto simp: hasPendingFollowUp_def filter_empty_conv)
  finally show ?thesis .
qed

lemma getNextFollowUp_in_tasks:
  assumes "getNextFollowUp getTime l = Some t"
  shows "t \<in> set (tasks l)"
proof -
  let ?ps = "filter (\<lambda>t. task_type t = Follow_up \<and> task_status t = Pending) (tasks l)"
  let ?s = "js_sort (\<lambda>a b. minus_num (getTime (dueDate a)) (getTime (dueDate b))) ?ps"
  from assms obtain rest where "?s = t # rest"
    by (auto simp: getNextFollowUp_def split: list.splits)
  then have "t \<in> set ?s" by simp
  then have "t \<in> set ?ps" by (simp only: set_js_sort)
  then show ?thesis by simp
qed

lemma lastActivity_valid:
  assumes "datesValid getTime l"
  shows "lastActivity getTime l
           = Some (timeOf getTime (case activities l of [] \<Rightarrow> createdAt l | a # _ \<Rightarrow> timestamp a))"
proof (cases "activities l")
  case Nil
  with assms show ?thesis
    by (auto simp: lastActivity_def datesValid_def timeOf_def)
next
  case (Cons a as)
  with assms have "timestamp a \<noteq> []" "getTime (timestamp a) \<noteq> None"
    by (simp_all add: datesValid_def)
  with Cons show ?thesis
    by (auto simp: lastActivity_def timeOf_def)
qed

lemma priorityOrder_inj: "priorityOrder p = priorityOrder q \<longleftrightarrow> p = q"
  by (cases p; cases q) simp_all

lemma compareLeads_key:
  assumes "datesValid getTime a" and "datesValid getTime b"
  shows "(sortCompare (compareLeads getTime a b) \<le> 0) = (leadKey getTime a \<le> leadKey getTime b)"
proof (cases "getNextFollowUp getTime a")
  case None
  note Na = None
  show ?thesis
  proof (cases "getNextFollowUp getTime b")
    case None
    with Na show ?thesis
      using lastActivity_valid[OF assms(1)] lastActivity_valid[OF assms(2)]
      by (simp add: compareLeads_def leadKey_def minus_num_def sortCompare_def)
  next
    case (Some tb)
    with Na show ?thesis
      by (simp add: compareLeads_def leadKey_def sortCompare_def)
  qed
next
  case (Some ta)
  note Sa = Some
  show ?thesis
  proof (cases "getNextFollowUp getTime b")
    case None
    with Sa show ?thesis
      by (simp add: compareLeads_def leadKey_def sortCompare_def)
  next
    case (Some tb)
    have "ta \<in> set (tasks a)" "tb \<in> set (tasks b)"
      using getNextFollowUp_in_tasks[OF Sa] getNextFollowUp_in_tasks[OF Some] by simp_all
    with assms have "getTime (dueDate ta) \<noteq> None" "getTime (dueDate tb) \<noteq> None"
      by (simp_all add: datesValid_def)
    then obtain x y where xy: "getTime (dueDate ta) = Some x" "getTime (dueDate tb) = Some y"
      by blast
    show ?thesis
    proof (cases "priorityOrder (priority ta) = priorityOrder (priority tb)")
      case True
      with Sa Some xy show ?thesis
        by (simp add: compareLeads_def leadKey_def sortCompare_def minus_num_def timeOf_def Let_def)
    next
      case False
      with Sa Some xy show ?thesis
        by (simp add: compareLeads_def leadKey_def sortCompare_def Let_def) linarith
    qed
  qed
qed

lemma mostRecentActivity_head:
  assumes "newestFirst getTime l"
  shows "mostRecentActivity getTime l
           = timeOf getTime (case activities l of [] \<Rightarrow> createdAt l | a # _ \<Rightarrow> timestamp a)"
proof (cases "activities l")
  case Nil
  then show ?thesis by (simp add: mostRecentActivity_def)
next
  case (Cons a as)
  with assms have "\<forall>b\<in>set as. timeOf getTime (timestamp b) \<le> timeOf getTime (timestamp a)"
    by (simp add: newestFirst_def)
  then have "Max (insert (timeOf getTime (timestamp a))
                    ((\<lambda>b. timeOf getTime (timestamp b)) ` set as))
               = timeOf getTime (timestamp a)"
    by (intro Max_eqI) auto
  with Cons show ?thesis by (simp add: mostRecentActivity_def)
qed

lemma leadKey_precedes:
  assumes "datesValid getTime a" "newestFirst getTime a"
      and "datesValid getTime b" "newestFirst getTime b"
      and "leadKey getTime a \<le> leadKey getTime b"
  shows "precedes getTime a b"
proof (cases "getNextFollowUp getTime a")
  case None
  note Na = None
  then have na: "\<not> hasPendingFollowUp a" by (simp add: getNextFollowUp_None)
  show ?thesis
  proof (cases "getNextFollowUp getTime b")
    case None
    then have nb: "\<not> hasPendingFollowUp b" by (simp add: getNextFollowUp_None)
    from assms(5) Na None
    have "sortCompare (lastActivity getTime b) \<le> sortCompare (lastActivity getTime a)"
      by (simp add: leadKey_def)
    then have "mostRecentActivity getTime b \<le> mostRecentActivity getTime a"
      using lastActivity_valid[OF assms(1)] lastActivity_valid[OF assms(3)]
        mostRecentActivity_head[OF assms(2)] mostRecentActivity_head[OF assms(4)]
      by (simp add: sortCompare_def)
    with na nb show ?thesis by (simp add: precedes_def)
  next
    case (Some tb)
    with assms(5) Na show ?thesis by (simp add: leadKey_def)
  qed
next
  case (Some ta)
  note Sa = Some
  then have pa: "hasPendingFollowUp a"
    using getNextFollowUp_None[of getTime a] by simp
  show ?thesis
  proof (cases "getNextFollowUp getTime b")
    case None
    then have "\<not> hasPendingFollowUp b" by (simp add: getNextFollowUp_None)
    with pa show ?thesis by (simp add: precedes_def)
  next
    case (Some tb)
    then have pb: "hasPendingFollowUp b"
      using getNextFollowUp_None[of getTime b] by simp
    from assms(5) Sa Some
    have "priorityOrder (priority ta) < priorityOrder (priority tb)
          \<or> (priority ta = priority tb
              \<and> timeOf getTime (dueDate ta) \<le> timeOf getTime (dueDate tb))"
      by (auto simp: leadKey_def priorityOrder_inj)
    with pa pb Sa Some show ?thesis by (simp add: precedes_def)
  qed
qed

lemma minus_num_le:
  assumes "getTime a \<noteq> None" and "getTime b \<noteq> None"
  shows "(sortCompare (minus_num (getTime a) (getTime b)) \<le> 0)
           = (timeOf getTime a \<le> timeOf getTime b)"
proof -
  from assms obtain x y where "getTime a = Some x" "getTime b = Some y"
    by blast
  then show ?thesis
    by (simp add: minus_num_def sortCompare_def timeOf_def)
qed

lemma getNextFollowUp_earliest:
  assumes "datesValid getTime l" and "getNextFollowUp getTime l = Some t"
  shows "t \<in> set (tasks l) \<and> task_type t = Follow_up \<and> task_status t = Pending
       \<and> (\<forall>t'\<in>set (tasks l). task_type t' = Follow_up \<and> task_status t' = Pending \<longrightarrow>
             timeOf getTime (dueDate t) \<le> timeOf getTime (dueDate t'))"
proof -
  let ?ps = "filter (\<lambda>t. task_type t = Follow_up \<and> task_status t = Pending) (tasks l)"
  let ?cmp = "\<lambda>a b. minus_num (getTime (dueDate a)) (getTime (dueDate b))"
  let ?key = "\<lambda>t. timeOf getTime (dueDate t)"
  have "\<forall>x\<in>set ?ps. \<forall>y\<in>set ?ps. (sortCompare (?cmp x y) \<le> 0) = (?key x \<le> ?key y)"
  proof (intro ballI)
    fix x y
    assume "x \<in> set ?ps" "y \<in> set ?ps"
    with assms(1) have "getTime (dueDate x) \<noteq> None" "getTime (dueDate y) \<noteq> None"
      by (simp_all add: datesValid_def)
    then show "(sortCompare (?cmp x y) \<le> 0) = (?key x \<le> ?key y)"
      by (rule minus_num_le)
  qed
  then have eq: "js_sort ?cmp ?ps = sort_key ?key ?ps"
    by (rule js_sort_sort_key)
  from assms(2) obtain rest where hd: "js_sort ?cmp ?ps = t # rest"
    by (auto simp: getNextFollowUp_def split: list.splits)
  have "sorted (map ?key (sort_key ?key ?ps))"
    by (rule sorted_sort_key)
  then have "sorted (map ?key (t # rest))"
    using eq hd by simp
  then have "\<forall>t'\<in>set rest. ?key t \<le> ?key t'"
    by simp
  moreover have "set (t # rest) = set ?ps"
    using hd set_js_sort[of ?cmp ?ps] by simp
  ultimately show ?thesis by auto
qed

text \<open>
  Claim C5 (Kanban priority sort). For leads whose dates are valid and whose activities
  are newest first, the sorted list is a rearrangement of the given one in which, for
  every two positions, the lead at the earlier one precedes the lead at the later one:
  a lead with a pending follow-up stands before every lead without; two leads with one
  are ordered by the priority of their next follow-up (High, Medium, Low) and then by
  its due date; two leads without are ordered by their most recent activity, or creation
  time, latest first. The next follow-up is the pending follow-up due earliest.
\<close>

theorem sortLeadsByPriority_precedence:
  assumes "\<forall>l\<in>set ls. datesValid getTime l \<and> newestFirst getTime l"
  shows "mset (sortLeadsByPriority getTime ls) = mset ls
       \<and> sorted_wrt (precedes getTime) (sortLeadsByPriority getTime ls)
       \<and> (\<forall>l\<in>set ls. case getNextFollowUp getTime l of
                          None \<Rightarrow> \<not> hasPendingFollowUp l
                        | Some t \<Rightarrow> earliestPending getTime t l)"
proof -
  have eq: "sortLeadsByPriority getTime ls = sort_key (leadKey getTime) ls"
    unfolding sortLeadsByPriority_def
    using assms by (intro js_sort_sort_key) (simp add: compareLeads_key)
  have "sorted (map (leadKey getTime) (sort_key (leadKey getTime) ls))"
    by (rule sorted_sort_key)
  then have sk: "sorted_wrt (\<lambda>a b. leadKey getTime a \<le> leadKey getTime b)
                   (sort_key (leadKey getTime) ls)"
    by (simp add: sorted_map)
  have "sorted_wrt (precedes getTime) (sort_key (leadKey getTime) ls)"
  proof (rule sorted_wrt_mono_rel[OF _ sk])
    fix a b
    assume "a \<in> set (sort_key (leadKey getTime) ls)"
      and "b \<in> set (sort_key (leadKey getTime) ls)"
      and le: "leadKey getTime a \<le> leadKey getTime b"
    then have "a \<in> set ls" "b \<in> set ls" by simp_all
    with assms le show "precedes getTime a b"
      by (simp add: leadKey_precedes)
  qed
  moreover have "\<forall>l\<in>set ls. case getNextFollowUp getTime l of
                               None \<Rightarrow> \<not> hasPendingFollowUp l
                             | Some t \<Rightarrow> earliestPending getTime t l"
    using assms
    by (auto simp: getNextFollowUp_None earliestPending_def
             dest: getNextFollowUp_earliest split: option.splits)
  ultimately show ?thesis by (simp add: eq)
qed

theorem sortLeadsByPriority_precedence_witness:
  "sortLeadsByPriority exampleGetTime [kanbanNone, kanbanLow, kanbanHigh]
     = [kanbanHigh, kanbanLow, kanbanNone]
   \<and> precedes exampleGetTime kanbanHigh kanbanLow
   \<and> precedes exampleGetTime kanbanLow kanbanNone"
proof -
  have h: "\<forall>l\<in>set [kanbanNone, kanbanLow, kanbanHigh].
             datesValid exampleGetTime l \<and> newestFirst exampleGetTime l"
    by code_simp
  have r: "sortLeadsByPriority exampleGetTime [kanbanNone, kanbanLow, kanbanHigh]
             = [kanbanHigh, kanbanLow, kanbanNone]"
    by code_simp
  from sortLeadsByPriority_precedence[OF h] r show ?thesis by simp
qed

section \<open>Round-robin distribution\<close>

















end
